theory Spec2Isabelle
  imports Complex_Main
begin

section \<open>Data model\<close>

text \<open>
  The Go package \<^verbatim>\<open>causalinference\<close> generates a synthetic data set and estimates
  an average treatment effect from it; the R script holds a second estimator.

  Numbers: a \<^verbatim>\<open>float64\<close> (R: a double) is read as a real number, so
  rounding and overflow are outside the model. The one arithmetic step that has no real
  value, a quotient with divisor zero (IEEE gives NaN or an infinity there), is a
  result of its own, \<open>NonFinite\<close>. Go's \<^verbatim>\<open>int\<close> is \<open>int\<close>: the treatment
  values are only compared with 1 and converted, the counters only count up to a slice
  length; the seed, an \<^verbatim>\<open>int64\<close>, is only handed to the library. Loop counters
  start at 0 and only grow, they are \<open>nat\<close>.
  The pointer handed to the estimator is taken to be non-nil and memory to be sufficient.
\<close>

datatype fault =
    IndexOutOfRange   \<comment> \<open>Go run-time panic: index out of range\<close>
  | LenOutOfRange     \<comment> \<open>Go run-time panic: makeslice: len out of range\<close>
  | NonFinite         \<comment> \<open>a quotient with divisor zero: NaN or an infinity, not a real\<close>

record CausalData =
  X :: "real list"
  Treatment :: "int list"
  Outcome :: "real list"
  TrueEffect :: real

text \<open>Reading and writing a slice element; out of range both panic.\<close>

definition index :: "'a list \<Rightarrow> nat \<Rightarrow> fault + 'a" where
  "index xs i = (if i < length xs then Inr (xs ! i) else Inl IndexOutOfRange)"

definition store :: "'a list \<Rightarrow> nat \<Rightarrow> 'a \<Rightarrow> fault + 'a list" where
  "store xs i v = (if i < length xs then Inr (xs[i := v]) else Inl IndexOutOfRange)"

definition fdiv :: "real \<Rightarrow> real \<Rightarrow> fault + real" where
  "fdiv a b = (if b = 0 then Inl NonFinite else Inr (a / b))"

section \<open>The generator of the Go package\<close>

text \<open>
  \<^verbatim>\<open>GenerateCausalData\<close> draws from the default source of \<^verbatim>\<open>math/rand\<close>, which
  is one per process. The library is not part of the repository, so its three functions
  are parameters, each written as a function of the state of the default source:
  \<^verbatim>\<open>rand.Seed(seed)\<close> puts the source in a state fixed by the seed (the contract
  the library documents for it), \<^verbatim>\<open>rand.NormFloat64()\<close> and \<^verbatim>\<open>rand.Float64()\<close>
  return a number and the next state.
\<close>

record 's source =
  Seed :: "int \<Rightarrow> 's"
  NormFloat64 :: "'s \<Rightarrow> real \<times> 's"
  Float64 :: "'s \<Rightarrow> real \<times> 's"

text \<open>
  The body of \<^verbatim>\<open>for i := 0; i < n; i++\<close>, for one i: the data so far and the state
  of the default source go in, the data (or the panic) and the state come out.
\<close>

definition generate_unit ::
  "'s source \<Rightarrow> nat \<Rightarrow> CausalData \<Rightarrow> 's \<Rightarrow> (fault + CausalData) \<times> 's" where
  "generate_unit rng i data g =
     (let (x, g1) = NormFloat64 rng g in
      case store (X data) i x of
        Inl e \<Rightarrow> (Inl e, g1)
      | Inr xs \<Rightarrow>
     (let data1 = data\<lparr>X := xs\<rparr>;
          (u, g2) = Float64 rng g1 in
      case index (X data1) i of
        Inl e \<Rightarrow> (Inl e, g2)
      | Inr xi \<Rightarrow>
     (case (if u < 0.5 * (xi + 1) then store (Treatment data1) i 1
            else Inr (Treatment data1)) of
        Inl e \<Rightarrow> (Inl e, g2)
      | Inr ts \<Rightarrow>
     (let data2 = data1\<lparr>Treatment := ts\<rparr> in
      case index (X data2) i of
        Inl e \<Rightarrow> (Inl e, g2)
      | Inr xi' \<Rightarrow>
     (case index (Treatment data2) i of
        Inl e \<Rightarrow> (Inl e, g2)
      | Inr ti \<Rightarrow>
     (let (noise, g3) = NormFloat64 rng g2 in
      case store (Outcome data2) i (xi' + real_of_int ti * TrueEffect data2 + noise) of
        Inl e \<Rightarrow> (Inl e, g3)
      | Inr ys \<Rightarrow> (Inr (data2\<lparr>Outcome := ys\<rparr>), g3)))))))"

function generate_loop ::
  "'s source \<Rightarrow> int \<Rightarrow> nat \<Rightarrow> CausalData \<Rightarrow> 's \<Rightarrow> (fault + CausalData) \<times> 's" where
  "generate_loop rng n i data g =
     (if int i < n then
        (case generate_unit rng i data g of
           (Inl e, g') \<Rightarrow> (Inl e, g')
         | (Inr data', g') \<Rightarrow> generate_loop rng n (Suc i) data' g')
      else (Inr data, g))"
  by pat_completeness auto
termination
  by (relation "measure (\<lambda>(rng, n, i, data, g). nat (n - int i))") auto

declare generate_loop.simps [simp del]

text \<open>
  The last argument is the state of the default source when the call starts; the second
  component of the result is its state when the call ends. \<^verbatim>\<open>make\<close> panics on a
  negative length, after the source has been seeded.
\<close>

definition GenerateCausalData ::
  "'s source \<Rightarrow> int \<Rightarrow> int \<Rightarrow> 's \<Rightarrow> (fault + CausalData) \<times> 's" where
  "GenerateCausalData rng n seed g =
     (let g0 = Seed rng seed in
      if n < 0 then (Inl LenOutOfRange, g0)
      else generate_loop rng n 0
             \<lparr>X = replicate (nat n) 0,
              Treatment = replicate (nat n) 0,
              Outcome = replicate (nat n) 0,
              TrueEffect = 5.0\<rparr> g0)"

text \<open>
  The draws of one unit, in the order the loop makes them, from the state in which the
  unit starts: the covariate, the uniform number, the noise; and the state in which the
  next unit starts.
\<close>

definition covariate_draw :: "'s source \<Rightarrow> 's \<Rightarrow> real" where
  "covariate_draw rng g = fst (NormFloat64 rng g)"

definition uniform_draw :: "'s source \<Rightarrow> 's \<Rightarrow> real" where
  "uniform_draw rng g = fst (Float64 rng (snd (NormFloat64 rng g)))"

definition noise_draw :: "'s source \<Rightarrow> 's \<Rightarrow> real" where
  "noise_draw rng g = fst (NormFloat64 rng (snd (Float64 rng (snd (NormFloat64 rng g)))))"

definition after_unit :: "'s source \<Rightarrow> 's \<Rightarrow> 's" where
  "after_unit rng g = snd (NormFloat64 rng (snd (Float64 rng (snd (NormFloat64 rng g)))))"

text \<open>The state in which unit i of a call with the given seed starts.\<close>

definition unit_state :: "'s source \<Rightarrow> int \<Rightarrow> nat \<Rightarrow> 's" where
  "unit_state rng seed i = (after_unit rng ^^ i) (Seed rng seed)"

text \<open>
  A small source to run the generator on: its state is the seed and the number of draws
  made since, and both kinds of draw cycle through a few values. It stands in for the
  library where a concrete source is needed; it is not the library's algorithm.
\<close>

definition counting_source :: "(int \<times> nat) source" where
  "counting_source =
     \<lparr>Seed = (\<lambda>seed. (seed, 0)),
      NormFloat64 = (\<lambda>(seed, k). (real_of_int ((seed + int k) mod 5) - 2, (seed, Suc k))),
      Float64 = (\<lambda>(seed, k). (real_of_int ((seed + int k) mod 4) / 4, (seed, Suc k)))\<rparr>"

section \<open>The estimator of the Go package\<close>

text \<open>The four local variables of \<^verbatim>\<open>EstimateCausalEffect\<close>.\<close>

record tally =
  treatSum :: real
  controlSum :: real
  treatCount :: int
  controlCount :: int

definition zero_tally :: tally where
  "zero_tally = \<lparr>treatSum = 0, controlSum = 0, treatCount = 0, controlCount = 0\<rparr>"

text \<open>One pass of the body of \<^verbatim>\<open>for i := range data.X\<close>.\<close>

definition estimate_step :: "CausalData \<Rightarrow> nat \<Rightarrow> tally \<Rightarrow> fault + tally" where
  "estimate_step data i a =
     (case index (Treatment data) i of
        Inl e \<Rightarrow> Inl e
      | Inr t \<Rightarrow>
          if t = 1 then
            (case index (Outcome data) i of
               Inl e \<Rightarrow> Inl e
             | Inr y \<Rightarrow> Inr (a\<lparr>treatSum := treatSum a + y, treatCount := treatCount a + 1\<rparr>))
          else
            (case index (Outcome data) i of
               Inl e \<Rightarrow> Inl e
             | Inr y \<Rightarrow> Inr (a\<lparr>controlSum := controlSum a + y,
                                controlCount := controlCount a + 1\<rparr>)))"

function estimate_loop :: "CausalData \<Rightarrow> nat \<Rightarrow> tally \<Rightarrow> fault + tally" where
  "estimate_loop data i a =
     (if i < length (X data) then
        (case estimate_step data i a of
           Inl e \<Rightarrow> Inl e
         | Inr a' \<Rightarrow> estimate_loop data (Suc i) a')
      else Inr a)"
  by pat_completeness auto
termination
  by (relation "measure (\<lambda>(data, i, a). length (X data) - i)") auto

declare estimate_loop.simps [simp del]

definition EstimateCausalEffect :: "CausalData \<Rightarrow> fault + real" where
  "EstimateCausalEffect data =
     (case estimate_loop data 0 zero_tally of
        Inl e \<Rightarrow> Inl e
      | Inr a \<Rightarrow>
          if treatCount a = 0 \<or> controlCount a = 0 then Inr 0
          else
            (case fdiv (treatSum a) (real_of_int (treatCount a)) of
               Inl e \<Rightarrow> Inl e
             | Inr mt \<Rightarrow>
                 (case fdiv (controlSum a) (real_of_int (controlCount a)) of
                    Inl e \<Rightarrow> Inl e
                  | Inr mc \<Rightarrow> Inr (mt - mc))))"

section \<open>The estimator of the R script\<close>

text \<open>
  \<^verbatim>\<open>estimate_simple_ate\<close> takes a data frame with the columns \<^verbatim>\<open>X\<close>,
  \<^verbatim>\<open>treatment\<close> and \<^verbatim>\<open>outcome\<close>, all of one length. Its second result, the
  elapsed time, is not modelled.
\<close>

record data_frame =
  X_col :: "real list"
  treatment :: "int list"
  outcome :: "real list"

text \<open>\<^verbatim>\<open>data$outcome[data$treatment == v]\<close>: the outcomes of the rows whose treatment is v.\<close>

definition outcome_where :: "data_frame \<Rightarrow> int \<Rightarrow> real list" where
  "outcome_where df v = map snd (filter (\<lambda>(t, y). t = v) (zip (treatment df) (outcome df)))"

text \<open>\<^verbatim>\<open>mean(x)\<close> is the sum over the length; on the empty vector that is 0/0, NaN.\<close>

definition r_mean :: "real list \<Rightarrow> fault + real" where
  "r_mean xs = fdiv (sum_list xs) (real (length xs))"

definition estimate_simple_ate :: "data_frame \<Rightarrow> fault + real" where
  "estimate_simple_ate df =
     (let treated = outcome_where df 1;
          control = outcome_where df 0
      in case r_mean treated of
           Inl e \<Rightarrow> Inl e
         | Inr mt \<Rightarrow>
             (case r_mean control of
                Inl e \<Rightarrow> Inl e
              | Inr mc \<Rightarrow> Inr (mt - mc)))"

section \<open>Groups and means, as the specification words them\<close>

definition equal_lengths :: "CausalData \<Rightarrow> bool" where
  "equal_lengths d \<longleftrightarrow>
     length (Treatment d) = length (X d) \<and> length (Outcome d) = length (X d)"

definition binary_treatment :: "CausalData \<Rightarrow> bool" where
  "binary_treatment d \<longleftrightarrow> list_all (\<lambda>t. t = 0 \<or> t = 1) (Treatment d)"

text \<open>The outcomes of the units whose treatment satisfies a test, in unit order.\<close>

definition outcomes_with :: "(int \<Rightarrow> bool) \<Rightarrow> CausalData \<Rightarrow> real list" where
  "outcomes_with P d = map snd (filter (\<lambda>(t, y). P t) (zip (Treatment d) (Outcome d)))"

definition treated :: "CausalData \<Rightarrow> real list" where
  "treated d = outcomes_with (\<lambda>t. t = 1) d"

definition control :: "CausalData \<Rightarrow> real list" where
  "control d = outcomes_with (\<lambda>t. t = 0) d"

definition mean :: "real list \<Rightarrow> real" where
  "mean xs = sum_list xs / real (length xs)"

section \<open>Auxiliary notions for the proofs\<close>

text \<open>The units the estimator's loop has still to visit when its counter is i.\<close>

definition rest :: "CausalData \<Rightarrow> nat \<Rightarrow> (int \<times> real) list" where
  "rest d i = drop i (zip (Treatment d) (Outcome d))"

text \<open>The tally after the loop has added a list of units to it.\<close>

definition add_rest :: "tally \<Rightarrow> (int \<times> real) list \<Rightarrow> tally" where
  "add_rest a zs =
     \<lparr>treatSum = treatSum a + sum_list (map snd (filter (\<lambda>(t, y). t = 1) zs)),
      controlSum = controlSum a + sum_list (map snd (filter (\<lambda>(t, y). t \<noteq> 1) zs)),
      treatCount = treatCount a + int (length (filter (\<lambda>(t, y). t = 1) zs)),
      controlCount = controlCount a + int (length (filter (\<lambda>(t, y). t \<noteq> 1) zs))\<rparr>"

text \<open>What the generator's loop has made of unit j, which started in state s.\<close>

definition unit_done :: "'s source \<Rightarrow> 's \<Rightarrow> CausalData \<Rightarrow> nat \<Rightarrow> bool" where
  "unit_done rng s d j \<longleftrightarrow>
     X d ! j = covariate_draw rng s \<and>
     Treatment d ! j = (if uniform_draw rng s < 0.5 * (X d ! j + 1) then 1 else 0) \<and>
     Outcome d ! j = X d ! j + real_of_int (Treatment d ! j) * TrueEffect d + noise_draw rng s"

definition same_unit :: "CausalData \<Rightarrow> CausalData \<Rightarrow> nat \<Rightarrow> bool" where
  "same_unit d d' j \<longleftrightarrow>
     X d' ! j = X d ! j \<and> Treatment d' ! j = Treatment d ! j \<and> Outcome d' ! j = Outcome d ! j"

definition sized :: "nat \<Rightarrow> CausalData \<Rightarrow> bool" where
  "sized m d \<longleftrightarrow> length (X d) = m \<and> length (Treatment d) = m \<and> length (Outcome d) = m"

section \<open>Sample inputs\<close>

definition three_units :: CausalData where
  "three_units = \<lparr>X = [0, 1, 2], Treatment = [1, 0, 1], Outcome = [6, 1, 8], TrueEffect = 5\<rparr>"

definition recoded_units :: CausalData where
  "recoded_units = three_units\<lparr>X := [9, 9, 9], TrueEffect := 0\<rparr>"

text \<open>A data set whose second and third treatment values are neither 0 nor 1.\<close>

definition odd_units :: CausalData where
  "odd_units = \<lparr>X = [0, 0, 0], Treatment = [1, 2, - 1], Outcome = [10, 3, 4], TrueEffect = 5\<rparr>"

text \<open>One untreated unit, as a Go value and as an R data frame.\<close>

definition lone_control :: CausalData where
  "lone_control = \<lparr>X = [0], Treatment = [0], Outcome = [1], TrueEffect = 5\<rparr>"

definition lone_control_frame :: data_frame where
  "lone_control_frame = \<lparr>X_col = [0], treatment = [0], outcome = [1]\<rparr>"

section \<open>The estimator's loop\<close>

lemma estimate_step_in_range:
  assumes "i < length (Treatment d)" and "i < length (Outcome d)"
  shows "estimate_step d i a =
     Inr (if Treatment d ! i = 1
          then a\<lparr>treatSum := treatSum a + Outcome d ! i, treatCount := treatCount a + 1\<rparr>
          else a\<lparr>controlSum := controlSum a + Outcome d ! i,
                 controlCount := controlCount a + 1\<rparr>)"
  using assms by (simp add: estimate_step_def index_def)

lemma rest_step:
  assumes "equal_lengths d" and "i < length (X d)"
  shows "rest d i = (Treatment d ! i, Outcome d ! i) # rest d (Suc i)"
proof -
  have "i < length (zip (Treatment d) (Outcome d))"
    using assms by (simp add: equal_lengths_def)
  then show ?thesis
    unfolding rest_def by (simp add: Cons_nth_drop_Suc [symmetric])
qed

lemma rest_end: "equal_lengths d \<Longrightarrow> length (X d) \<le> i \<Longrightarrow> rest d i = []"
  by (simp add: rest_def equal_lengths_def)

text \<open>From any counter and tally on, the loop adds the remaining units and does not panic.\<close>

lemma estimate_loop_closed:
  assumes "equal_lengths d"
  shows "estimate_loop d i a = Inr (add_rest a (rest d i))"
proof (induction "length (X d) - i" arbitrary: i a)
  case 0
  then have "length (X d) \<le> i" by simp
  with assms show ?case
    by (simp add: estimate_loop.simps [of d i a] rest_end add_rest_def)
next
  case (Suc k)
  then have lt: "i < length (X d)" and k: "k = length (X d) - Suc i" by simp_all
  from lt assms have r: "i < length (Treatment d)" "i < length (Outcome d)"
    by (simp_all add: equal_lengths_def)
  show ?case
    by (simp add: estimate_loop.simps [of d i a] lt estimate_step_in_range [OF r]
        Suc.hyps(1) [OF k] rest_step [OF assms lt] add_rest_def)
qed

text \<open>The loop reads the covariates for their number only.\<close>

lemma estimate_loop_same:
  assumes "length (X d1) = length (X d2)" and "Treatment d1 = Treatment d2"
    and "Outcome d1 = Outcome d2"
  shows "estimate_loop d1 i a = estimate_loop d2 i a"
proof (induction "length (X d1) - i" arbitrary: i a)
  case 0
  then show ?case using assms
    by (simp add: estimate_loop.simps [of d1 i a] estimate_loop.simps [of d2 i a])
next
  case (Suc k)
  then have k: "k = length (X d1) - Suc i" by simp
  have s: "estimate_step d1 i a = estimate_step d2 i a"
    unfolding estimate_step_def assms(2) assms(3) by (rule refl)
  show ?case using assms(1)
    by (simp add: estimate_loop.simps [of d1 i a] estimate_loop.simps [of d2 i a] s
        Suc.hyps(1) [OF k] split: sum.splits)
qed

lemma outcomes_with_rest: "outcomes_with P d = map snd (filter (\<lambda>(t, y). P t) (rest d 0))"
  by (simp add: outcomes_with_def rest_def)

lemma estimate_loop_groups:
  assumes "equal_lengths d"
  shows "estimate_loop d 0 zero_tally =
     Inr \<lparr>treatSum = sum_list (outcomes_with (\<lambda>t. t = 1) d),
          controlSum = sum_list (outcomes_with (\<lambda>t. t \<noteq> 1) d),
          treatCount = int (length (outcomes_with (\<lambda>t. t = 1) d)),
          controlCount = int (length (outcomes_with (\<lambda>t. t \<noteq> 1) d))\<rparr>"
  by (simp add: estimate_loop_closed [OF assms] add_rest_def zero_tally_def
      outcomes_with_rest)

text \<open>
  The estimator in closed form, for any treatment values: the second group is made of
  the units whose treatment is not 1.
\<close>

lemma EstimateCausalEffect_groups:
  assumes "equal_lengths d"
  shows "EstimateCausalEffect d =
     (if outcomes_with (\<lambda>t. t = 1) d = [] \<or> outcomes_with (\<lambda>t. t \<noteq> 1) d = [] then Inr 0
      else Inr (mean (outcomes_with (\<lambda>t. t = 1) d) - mean (outcomes_with (\<lambda>t. t \<noteq> 1) d)))"
  by (simp add: EstimateCausalEffect_def estimate_loop_groups [OF assms] fdiv_def mean_def)

text \<open>On 0/1 treatments, the units that are not treated are the control units.\<close>

lemma binary_control:
  assumes "binary_treatment d"
  shows "outcomes_with (\<lambda>t. t \<noteq> 1) d = control d"
proof -
  have "filter (\<lambda>(t, y). t \<noteq> 1) (zip (Treatment d) (Outcome d)) =
        filter (\<lambda>(t, y). t = 0) (zip (Treatment d) (Outcome d))"
  proof (rule filter_cong [OF refl])
    fix p assume mem: "p \<in> set (zip (Treatment d) (Outcome d))"
    obtain t y where p: "p = (t, y)" by (cases p)
    with mem have "t \<in> set (Treatment d)" by (auto dest: set_zip_leftD)
    with assms have "t = 0 \<or> t = 1"
      by (simp add: binary_treatment_def list_all_iff)
    with p show "(case p of (t, y) \<Rightarrow> t \<noteq> 1) = (case p of (t, y) \<Rightarrow> t = 0)"
      by auto
  qed
  then show ?thesis by (simp add: outcomes_with_def control_def)
qed

section \<open>The generator's loop\<close>

lemma generate_unit_in_range:
  assumes "i < length (X d)" and "i < length (Treatment d)" and "i < length (Outcome d)"
  shows "generate_unit rng i d g =
     (let x = covariate_draw rng g;
          ts = (if uniform_draw rng g < 0.5 * (x + 1) then (Treatment d)[i := 1]
                else Treatment d)
      in (Inr (d\<lparr>X := (X d)[i := x], Treatment := ts,
                 Outcome := (Outcome d)[i := x + real_of_int (ts ! i) * TrueEffect d
                                               + noise_draw rng g]\<rparr>),
          after_unit rng g))"
  using assms
  by (simp add: generate_unit_def store_def index_def Let_def case_prod_beta
      covariate_draw_def uniform_draw_def noise_draw_def after_unit_def)

lemma generate_unit_step:
  assumes "sized m d" and "i < m" and "Treatment d ! i = 0"
  shows "\<exists>d1. generate_unit rng i d g = (Inr d1, after_unit rng g) \<and>
           sized m d1 \<and> TrueEffect d1 = TrueEffect d \<and> unit_done rng g d1 i \<and>
           (\<forall>j. j \<noteq> i \<longrightarrow> same_unit d d1 j)"
proof -
  from assms have r: "i < length (X d)" "i < length (Treatment d)" "i < length (Outcome d)"
    by (simp_all add: sized_def)
  define x where "x = covariate_draw rng g"
  define ts where "ts = (if uniform_draw rng g < 0.5 * (x + 1) then (Treatment d)[i := 1]
                else Treatment d)"
  define d1 where "d1 = d\<lparr>X := (X d)[i := x], Treatment := ts,
                 Outcome := (Outcome d)[i := x + real_of_int (ts ! i) * TrueEffect d
                                               + noise_draw rng g]\<rparr>"
  have 1: "generate_unit rng i d g = (Inr d1, after_unit rng g)"
    by (simp add: generate_unit_in_range [OF r] d1_def ts_def x_def Let_def)
  have 2: "sized m d1" using assms(1) by (simp add: sized_def d1_def ts_def)
  have 3: "TrueEffect d1 = TrueEffect d" by (simp add: d1_def)
  have 4: "unit_done rng g d1 i"
    using r assms(3) by (simp add: unit_done_def d1_def ts_def x_def)
  have 5: "\<forall>j. j \<noteq> i \<longrightarrow> same_unit d d1 j"
    by (simp add: same_unit_def d1_def ts_def)
  from 1 2 3 4 5 show ?thesis by blast
qed

text \<open>
  The loop invariant: started at counter i in state g on slices of length m whose
  treatments from i on are still 0, the loop ends without a panic, leaves the units
  before i alone and makes every unit from i on from its own three draws.
\<close>

lemma generate_loop_inv:
  assumes "sized m d" and "n = int m" and "i \<le> m"
    and "\<forall>j. i \<le> j \<and> j < m \<longrightarrow> Treatment d ! j = 0"
  shows "\<exists>d'. generate_loop rng n i d g = (Inr d', (after_unit rng ^^ (m - i)) g) \<and>
           sized m d' \<and> TrueEffect d' = TrueEffect d \<and>
           (\<forall>j<i. same_unit d d' j) \<and>
           (\<forall>j. i \<le> j \<and> j < m \<longrightarrow> unit_done rng ((after_unit rng ^^ (j - i)) g) d' j)"
  using assms
proof (induction "m - i" arbitrary: i d g)
  case 0
  then have im: "i = m" by simp
  with 0 have "generate_loop rng n i d g = (Inr d, g)"
    by (subst generate_loop.simps) simp
  with im 0 show ?case
    by (intro exI [of _ d]) (auto simp add: same_unit_def)
next
  case (Suc k)
  then have lt: "i < m" and k: "k = m - Suc i" and le: "Suc i \<le> m" by simp_all
  from Suc.prems(4) lt have z: "Treatment d ! i = 0" by simp
  from generate_unit_step [OF Suc.prems(1) lt z, of rng g] obtain d1 where
    u: "generate_unit rng i d g = (Inr d1, after_unit rng g)"
    and s1: "sized m d1" and t1: "TrueEffect d1 = TrueEffect d"
    and done1: "unit_done rng g d1 i"
    and same1: "\<And>j. j \<noteq> i \<Longrightarrow> same_unit d d1 j"
    by blast
  have z1: "\<forall>j. Suc i \<le> j \<and> j < m \<longrightarrow> Treatment d1 ! j = 0"
  proof (intro allI impI)
    fix j assume j: "Suc i \<le> j \<and> j < m"
    then have "same_unit d d1 j" by (intro same1) simp
    moreover from j Suc.prems(4) have "Treatment d ! j = 0" by simp
    ultimately show "Treatment d1 ! j = 0" by (simp add: same_unit_def)
  qed
  from Suc.hyps(1) [OF k s1 Suc.prems(2) le z1, of "after_unit rng g"]
  obtain d' where
    l: "generate_loop rng n (Suc i) d1 (after_unit rng g) =
          (Inr d', (after_unit rng ^^ (m - Suc i)) (after_unit rng g))"
    and s': "sized m d'" and t': "TrueEffect d' = TrueEffect d1"
    and same': "\<forall>j<Suc i. same_unit d1 d' j"
    and done': "\<forall>j. Suc i \<le> j \<and> j < m \<longrightarrow>
          unit_done rng ((after_unit rng ^^ (j - Suc i)) (after_unit rng g)) d' j"
    by blast
  have pow: "(after_unit rng ^^ p) (after_unit rng g) = (after_unit rng ^^ Suc p) g" for p
    by (simp add: funpow_swap1)
  have a: "generate_loop rng n i d g = (Inr d', (after_unit rng ^^ (m - i)) g)"
  proof -
    have "int i < n" using lt Suc.prems(2) by simp
    moreover have "Suc (m - Suc i) = m - i" using lt by simp
    ultimately show ?thesis
      by (simp add: generate_loop.simps [of rng n i d g] u l pow del: funpow.simps)
  qed
  have b: "\<forall>j<i. same_unit d d' j"
  proof (intro allI impI)
    fix j assume "j < i"
    then have "same_unit d d1 j" and "same_unit d1 d' j" using same1 same' by simp_all
    then show "same_unit d d' j" by (simp add: same_unit_def)
  qed
  have c: "\<forall>j. i \<le> j \<and> j < m \<longrightarrow> unit_done rng ((after_unit rng ^^ (j - i)) g) d' j"
  proof (intro allI impI)
    fix j assume j: "i \<le> j \<and> j < m"
    show "unit_done rng ((after_unit rng ^^ (j - i)) g) d' j"
    proof (cases "j = i")
      case True
      have "same_unit d1 d' i" using same' by simp
      with done1 t' True show ?thesis by (simp add: unit_done_def same_unit_def)
    next
      case False
      with j have "Suc i \<le> j \<and> j < m" and e: "Suc (j - Suc i) = j - i" by auto
      with done' have "unit_done rng ((after_unit rng ^^ (j - Suc i)) (after_unit rng g)) d' j"
        by blast
      then show ?thesis by (simp only: pow e)
    qed
  qed
  from a s' t' t1 b c show ?case by auto
qed

lemma GenerateCausalData_units:
  assumes "0 \<le> n"
  shows "\<exists>d. GenerateCausalData rng n seed g = (Inr d, unit_state rng seed (nat n)) \<and>
           sized (nat n) d \<and> TrueEffect d = 5 \<and>
           (\<forall>j<nat n. unit_done rng (unit_state rng seed j) d j)"
proof -
  define d0 where "d0 = \<lparr>X = replicate (nat n) 0, Treatment = replicate (nat n) 0,
     Outcome = replicate (nat n) 0, TrueEffect = 5.0\<rparr>"
  have s: "sized (nat n) d0" by (simp add: sized_def d0_def)
  have n: "n = int (nat n)" using assms by simp
  have z: "\<forall>j. 0 \<le> j \<and> j < nat n \<longrightarrow> Treatment d0 ! j = 0" by (simp add: d0_def)
  have t: "TrueEffect d0 = 5" by (simp add: d0_def)
  have start: "GenerateCausalData rng n seed g = generate_loop rng n 0 d0 (Seed rng seed)"
    using assms by (simp add: GenerateCausalData_def d0_def Let_def)
  from generate_loop_inv [OF s n le0 z, of rng "Seed rng seed"] obtain d' where
    l: "generate_loop rng n 0 d0 (Seed rng seed) =
          (Inr d', (after_unit rng ^^ (nat n - 0)) (Seed rng seed))"
    and s': "sized (nat n) d'" and t': "TrueEffect d' = TrueEffect d0"
    and u: "\<forall>j. 0 \<le> j \<and> j < nat n \<longrightarrow>
          unit_done rng ((after_unit rng ^^ (j - 0)) (Seed rng seed)) d' j"
    by (elim exE conjE)
  from l have 1: "GenerateCausalData rng n seed g = (Inr d', unit_state rng seed (nat n))"
    by (simp only: start unit_state_def diff_zero)
  from t t' have 2: "TrueEffect d' = 5" by simp
  from u have 3: "\<forall>j<nat n. unit_done rng (unit_state rng seed j) d' j"
    by (simp only: unit_state_def diff_zero le0 simp_thms)
  from 1 s' 2 3 show ?thesis by blast
qed

text \<open>What the generator returns is a data set in the sense of the estimator's properties.\<close>

lemma GenerateCausalData_well_formed:
  assumes "0 \<le> n"
  shows "\<exists>d g'. GenerateCausalData rng n seed g = (Inr d, g') \<and>
           length (X d) = nat n \<and> equal_lengths d \<and> binary_treatment d"
proof -
  from GenerateCausalData_units [OF assms, of rng seed g] obtain d where
    g: "GenerateCausalData rng n seed g = (Inr d, unit_state rng seed (nat n))"
    and s: "sized (nat n) d"
    and u: "\<forall>j<nat n. unit_done rng (unit_state rng seed j) d j"
    by (elim exE conjE)
  have "\<forall>j<length (Treatment d). Treatment d ! j = 0 \<or> Treatment d ! j = 1"
  proof (intro allI impI)
    fix j assume "j < length (Treatment d)"
    with s have "j < nat n" by (simp add: sized_def)
    with u have "unit_done rng (unit_state rng seed j) d j" by simp
    then show "Treatment d ! j = 0 \<or> Treatment d ! j = 1"
      by (simp add: unit_done_def)
  qed
  then have "binary_treatment d"
    by (simp add: binary_treatment_def list_all_length)
  with g s show ?thesis by (auto simp add: equal_lengths_def sized_def)
qed

text \<open>A run of the generator on the sample source.\<close>

lemma GenerateCausalData_sample_run:
  "GenerateCausalData counting_source 3 7 (0, 0) =
     (Inr \<lparr>X = [0, - 2, 1], Treatment = [1, 0, 1], Outcome = [7, - 2, 4], TrueEffect = 5\<rparr>,
      (7, 9))"
  by (simp add: GenerateCausalData_def generate_loop.simps generate_unit_def store_def
      index_def counting_source_def eval_nat_numeral)

section \<open>Properties of the estimators\<close>

text \<open>
  The Go estimator on a data set (three slices of one length, treatments 0 or 1) with an
  empty group: the guard returns 0, no index panics and no quotient is taken.
\<close>

lemma EstimateCausalEffect_empty_group:
  assumes "equal_lengths d" and "binary_treatment d" and "treated d = [] \<or> control d = []"
  shows "EstimateCausalEffect d = Inr 0"
  using assms(3)
  by (simp add: EstimateCausalEffect_groups [OF assms(1)] binary_control [OF assms(2)]
      treated_def [symmetric])

text \<open>With at most one unit, one of the two groups is empty.\<close>

lemma one_group_empty:
  assumes "equal_lengths d" and "length (X d) \<le> 1"
  shows "treated d = [] \<or> control d = []"
proof -
  from assms have "length (zip (Treatment d) (Outcome d)) \<le> 1"
    by (simp add: equal_lengths_def)
  then consider "zip (Treatment d) (Outcome d) = []"
    | t y where "zip (Treatment d) (Outcome d) = [(t, y)]"
    by (cases "zip (Treatment d) (Outcome d)") auto
  then show ?thesis
    by cases (auto simp add: treated_def control_def outcomes_with_def)
qed

text \<open>So the Go estimator returns 0 on what the Go generator makes for n = 0 and n = 1.\<close>

lemma estimate_generated_small:
  assumes "n = 0 \<or> n = 1"
  shows "\<exists>d g'. GenerateCausalData rng n seed g = (Inr d, g') \<and> EstimateCausalEffect d = Inr 0"
proof -
  from assms have "0 \<le> n" by auto
  from GenerateCausalData_well_formed [OF this, of rng seed g] obtain d g' where
    g: "GenerateCausalData rng n seed g = (Inr d, g')"
    and l: "length (X d) = nat n" and e: "equal_lengths d" and b: "binary_treatment d"
    by blast
  from l assms have "length (X d) \<le> 1" by auto
  with e have "treated d = [] \<or> control d = []" by (rule one_group_empty)
  with e b have "EstimateCausalEffect d = Inr 0" by (rule EstimateCausalEffect_empty_group)
  with g show ?thesis by blast
qed

text \<open>
  C1: whenever the treated or the control group is empty, the estimator returns exactly 0.
  The Go estimator does (the three lemmas above); the R estimator has no such guard. On
  the data of a single untreated unit R takes the mean of the empty treated group, 0/0,
  and its result is NaN, where the Go estimator returns 0 on the same data.
\<close>

theorem estimate_simple_ate_lone_control:
  "estimate_simple_ate lone_control_frame = Inl NonFinite \<and>
   EstimateCausalEffect lone_control = Inr 0"
proof -
  have "estimate_simple_ate lone_control_frame = Inl NonFinite"
    by (simp add: estimate_simple_ate_def outcome_where_def r_mean_def fdiv_def
        lone_control_frame_def)
  moreover have "EstimateCausalEffect lone_control = Inr 0"
    by (rule EstimateCausalEffect_empty_group)
      (simp_all add: equal_lengths_def binary_treatment_def treated_def outcomes_with_def
        lone_control_def)
  ultimately show ?thesis by simp
qed

text \<open>
  C2: on a data set in which both the treated group (treatment 1) and the control group
  (treatment 0) are non-empty, the Go estimator returns the mean outcome of the treated
  units minus the mean outcome of the control units.
\<close>

theorem EstimateCausalEffect_difference_of_means:
  assumes "equal_lengths d" and "binary_treatment d"
    and "treated d \<noteq> []" and "control d \<noteq> []"
  shows "EstimateCausalEffect d = Inr (mean (treated d) - mean (control d))"
  using assms(3,4)
  by (simp add: EstimateCausalEffect_groups [OF assms(1)] binary_control [OF assms(2)]
      treated_def [symmetric])

theorem EstimateCausalEffect_difference_of_means_witness:
  "equal_lengths three_units \<and> binary_treatment three_units \<and>
   treated three_units \<noteq> [] \<and> control three_units \<noteq> [] \<and>
   EstimateCausalEffect three_units = Inr 6"
proof -
  have h: "equal_lengths three_units" "binary_treatment three_units"
    "treated three_units \<noteq> []" "control three_units \<noteq> []"
    by (simp_all add: three_units_def equal_lengths_def binary_treatment_def treated_def
        control_def outcomes_with_def)
  have "mean (treated three_units) - mean (control three_units) = 6"
    by (simp add: three_units_def treated_def control_def outcomes_with_def mean_def)
  with EstimateCausalEffect_difference_of_means [OF h] h show ?thesis by simp
qed

text \<open>
  C9: two data sets of the same length with equal treatment sequences and equal outcome
  sequences get the same result from the Go estimator, whatever their covariates and
  their true-effect fields are.
\<close>

theorem EstimateCausalEffect_ignores_covariate:
  assumes "length (X d1) = length (X d2)"
    and "Treatment d1 = Treatment d2" and "Outcome d1 = Outcome d2"
  shows "EstimateCausalEffect d1 = EstimateCausalEffect d2"
  by (simp add: EstimateCausalEffect_def estimate_loop_same [OF assms])

theorem EstimateCausalEffect_ignores_covariate_witness:
  "length (X three_units) = length (X recoded_units) \<and>
   Treatment three_units = Treatment recoded_units \<and>
   Outcome three_units = Outcome recoded_units \<and>
   X three_units \<noteq> X recoded_units \<and> TrueEffect three_units \<noteq> TrueEffect recoded_units \<and>
   EstimateCausalEffect three_units = EstimateCausalEffect recoded_units"
proof -
  have h: "length (X three_units) = length (X recoded_units)"
    "Treatment three_units = Treatment recoded_units"
    "Outcome three_units = Outcome recoded_units"
    by (simp_all add: three_units_def recoded_units_def)
  have "X three_units \<noteq> X recoded_units" "TrueEffect three_units \<noteq> TrueEffect recoded_units"
    by (simp_all add: three_units_def recoded_units_def)
  with EstimateCausalEffect_ignores_covariate [OF h] h show ?thesis by simp
qed

text \<open>
  C10: the Go estimator tests "treatment equals 1" against everything else. A unit
  whose treatment is not 1 (2, say, or -1) adds its outcome to the control sum and one to
  the control count, and leaves the treated sum and count as they were; over the whole
  data set the control sum and count are those of all units whose treatment is not 1.
\<close>

theorem not_one_counts_as_control:
  assumes "equal_lengths d" and "i < length (X d)" and "Treatment d ! i \<noteq> 1"
  shows "estimate_step d i a =
           Inr (a\<lparr>controlSum := controlSum a + Outcome d ! i,
                  controlCount := controlCount a + 1\<rparr>) \<and>
         estimate_loop d 0 zero_tally =
           Inr \<lparr>treatSum = sum_list (outcomes_with (\<lambda>t. t = 1) d),
                controlSum = sum_list (outcomes_with (\<lambda>t. t \<noteq> 1) d),
                treatCount = int (length (outcomes_with (\<lambda>t. t = 1) d)),
                controlCount = int (length (outcomes_with (\<lambda>t. t \<noteq> 1) d))\<rparr>"
proof -
  from assms(1,2) have r: "i < length (Treatment d)" "i < length (Outcome d)"
    by (simp_all add: equal_lengths_def)
  from assms(3) show ?thesis
    by (simp add: estimate_step_in_range [OF r] estimate_loop_groups [OF assms(1)])
qed

theorem not_one_counts_as_control_witness:
  "equal_lengths odd_units \<and> 1 < length (X odd_units) \<and> Treatment odd_units ! 1 \<noteq> 1 \<and>
   estimate_step odd_units 1 zero_tally =
     Inr \<lparr>treatSum = 0, controlSum = 3, treatCount = 0, controlCount = 1\<rparr> \<and>
   estimate_loop odd_units 0 zero_tally =
     Inr \<lparr>treatSum = 10, controlSum = 7, treatCount = 1, controlCount = 2\<rparr>"
proof -
  have h: "equal_lengths odd_units" "1 < length (X odd_units)" "Treatment odd_units ! 1 \<noteq> 1"
    by (simp_all add: odd_units_def equal_lengths_def)
  from not_one_counts_as_control [OF h, of zero_tally] h show ?thesis
    by (simp add: odd_units_def outcomes_with_def zero_tally_def)
qed

section \<open>Properties of the generator\<close>

text \<open>
  C7: for every n \<ge> 0 and every seed the generator returns, without a panic, a data
  set whose covariate, treatment and outcome slices all have length n; for n = 0 they
  are empty.
\<close>

theorem GenerateCausalData_lengths:
  assumes "0 \<le> n"
  shows "(\<exists>d g'. GenerateCausalData rng n seed g = (Inr d, g') \<and>
            length (X d) = nat n \<and> length (Treatment d) = nat n \<and>
            length (Outcome d) = nat n) \<and>
         (\<exists>g'. GenerateCausalData rng 0 seed g =
            (Inr \<lparr>X = [], Treatment = [], Outcome = [], TrueEffect = 5\<rparr>, g'))"
proof
  from GenerateCausalData_units [OF assms, of rng seed g]
  show "\<exists>d g'. GenerateCausalData rng n seed g = (Inr d, g') \<and>
            length (X d) = nat n \<and> length (Treatment d) = nat n \<and>
            length (Outcome d) = nat n"
    by (auto simp add: sized_def)
  show "\<exists>g'. GenerateCausalData rng 0 seed g =
            (Inr \<lparr>X = [], Treatment = [], Outcome = [], TrueEffect = 5\<rparr>, g')"
    by (simp add: GenerateCausalData_def generate_loop.simps [of rng 0 0])
qed

theorem GenerateCausalData_lengths_witness:
  "(0::int) \<le> 3 \<and>
   (\<exists>d g'. GenerateCausalData counting_source 3 7 (0, 0) = (Inr d, g') \<and>
      length (X d) = 3 \<and> length (Treatment d) = 3 \<and> length (Outcome d) = 3)"
  using GenerateCausalData_lengths [of 3 counting_source 7 "(0, 0)"] by simp

text \<open>
  C8: for every n \<ge> 0 and every seed, every treatment value of the generated data set
  is 0 or 1.
\<close>

theorem GenerateCausalData_binary:
  assumes "0 \<le> n"
  shows "\<exists>d g'. GenerateCausalData rng n seed g = (Inr d, g') \<and>
           (\<forall>t \<in> set (Treatment d). t = 0 \<or> t = 1)"
proof -
  from GenerateCausalData_units [OF assms, of rng seed g] obtain d where
    g: "GenerateCausalData rng n seed g = (Inr d, unit_state rng seed (nat n))"
    and s: "sized (nat n) d"
    and u: "\<forall>j<nat n. unit_done rng (unit_state rng seed j) d j"
    by (elim exE conjE)
  have "\<forall>j<length (Treatment d). Treatment d ! j = 0 \<or> Treatment d ! j = 1"
  proof (intro allI impI)
    fix j assume "j < length (Treatment d)"
    with s have "j < nat n" by (simp add: sized_def)
    with u have "unit_done rng (unit_state rng seed j) d j" by simp
    then show "Treatment d ! j = 0 \<or> Treatment d ! j = 1"
      by (simp add: unit_done_def)
  qed
  then have "\<forall>t \<in> set (Treatment d). t = 0 \<or> t = 1"
    by (simp add: all_set_conv_all_nth)
  with g show ?thesis by blast
qed

theorem GenerateCausalData_binary_witness:
  "(0::int) \<le> 3 \<and>
   (\<exists>d g'. GenerateCausalData counting_source 3 7 (0, 0) = (Inr d, g') \<and>
      (\<forall>t \<in> set (Treatment d). t = 0 \<or> t = 1))"
  using GenerateCausalData_binary [of 3 counting_source 7 "(0, 0)"] by simp

text \<open>
  C4: the treatment of unit i is 1 exactly when the unit's uniform draw is below
  0.5 * (covariate + 1), and 0 otherwise; the threshold is not clamped, so with the draw
  in [0,1) a covariate of at least 1 always gives treatment 1 and a covariate of at most
  -1 always gives treatment 0.
\<close>

theorem GenerateCausalData_treatment:
  assumes "0 \<le> n" and "i < nat n"
  shows "\<exists>d g'. GenerateCausalData rng n seed g = (Inr d, g') \<and>
           X d ! i = covariate_draw rng (unit_state rng seed i) \<and>
           (Treatment d ! i = 1 \<longleftrightarrow>
              uniform_draw rng (unit_state rng seed i) < 0.5 * (X d ! i + 1)) \<and>
           (Treatment d ! i = 0 \<longleftrightarrow>
              \<not> uniform_draw rng (unit_state rng seed i) < 0.5 * (X d ! i + 1)) \<and>
           (0 \<le> uniform_draw rng (unit_state rng seed i) \<and>
            uniform_draw rng (unit_state rng seed i) < 1 \<longrightarrow>
              (1 \<le> X d ! i \<longrightarrow> Treatment d ! i = 1) \<and>
              (X d ! i \<le> - 1 \<longrightarrow> Treatment d ! i = 0))"
proof -
  from GenerateCausalData_units [OF assms(1), of rng seed g] obtain d where
    g: "GenerateCausalData rng n seed g = (Inr d, unit_state rng seed (nat n))"
    and u: "\<forall>j<nat n. unit_done rng (unit_state rng seed j) d j"
    by (elim exE conjE)
  from u assms(2) have d: "unit_done rng (unit_state rng seed i) d i" by simp
  let ?u = "uniform_draw rng (unit_state rng seed i)"
  have x: "X d ! i = covariate_draw rng (unit_state rng seed i)"
    and t: "Treatment d ! i = (if ?u < 0.5 * (X d ! i + 1) then 1 else 0)"
    using d by (simp_all add: unit_done_def)
  from t have one: "Treatment d ! i = 1 \<longleftrightarrow> ?u < 0.5 * (X d ! i + 1)"
    and zero: "Treatment d ! i = 0 \<longleftrightarrow> \<not> ?u < 0.5 * (X d ! i + 1)"
    by simp_all
  have high: "Treatment d ! i = 1" if "?u < 1" and "1 \<le> X d ! i"
  proof -
    from that have "?u < 0.5 * (X d ! i + 1)" by simp
    with one show ?thesis by simp
  qed
  have low: "Treatment d ! i = 0" if "0 \<le> ?u" and "X d ! i \<le> - 1"
  proof -
    from that have "\<not> ?u < 0.5 * (X d ! i + 1)" by simp
    with zero show ?thesis by simp
  qed
  from g x one zero high low show ?thesis by blast
qed

theorem GenerateCausalData_treatment_witness:
  "(0::int) \<le> 3 \<and> 1 < nat 3 \<and> 2 < nat 3 \<and>
   0 \<le> uniform_draw counting_source (unit_state counting_source 7 1) \<and>
   uniform_draw counting_source (unit_state counting_source 7 1) < 1 \<and>
   0 \<le> uniform_draw counting_source (unit_state counting_source 7 2) \<and>
   uniform_draw counting_source (unit_state counting_source 7 2) < 1 \<and>
   (\<exists>d g'. GenerateCausalData counting_source 3 7 (0, 0) = (Inr d, g') \<and>
      X d ! 1 \<le> - 1 \<and> Treatment d ! 1 = 0 \<and> 1 \<le> X d ! 2 \<and> Treatment d ! 2 = 1)"
proof -
  have c: "covariate_draw counting_source (unit_state counting_source 7 1) = - 2"
    "covariate_draw counting_source (unit_state counting_source 7 2) = 1"
    by (simp_all add: covariate_draw_def unit_state_def after_unit_def counting_source_def
        eval_nat_numeral)
  have u: "uniform_draw counting_source (unit_state counting_source 7 1) = 3 / 4"
    "uniform_draw counting_source (unit_state counting_source 7 2) = 1 / 2"
    by (simp_all add: uniform_draw_def unit_state_def after_unit_def counting_source_def
        eval_nat_numeral)
  from GenerateCausalData_treatment [of 3 1 counting_source 7 "(0, 0)"]
    GenerateCausalData_treatment [of 3 2 counting_source 7 "(0, 0)"] c u
  show ?thesis by auto
qed

text \<open>
  C5: the outcome of every unit is covariate + true effect * treatment + noise, the noise
  being the unit's third draw (its second normal draw), and the true effect returned
  with the data set is the constant 5.
\<close>

theorem GenerateCausalData_outcome:
  assumes "0 \<le> n"
  shows "\<exists>d g'. GenerateCausalData rng n seed g = (Inr d, g') \<and> TrueEffect d = 5 \<and>
           (\<forall>i<nat n. Outcome d ! i =
              X d ! i + TrueEffect d * real_of_int (Treatment d ! i)
                + noise_draw rng (unit_state rng seed i))"
proof -
  from GenerateCausalData_units [OF assms, of rng seed g] obtain d where
    g: "GenerateCausalData rng n seed g = (Inr d, unit_state rng seed (nat n))"
    and e: "TrueEffect d = 5"
    and u: "\<forall>j<nat n. unit_done rng (unit_state rng seed j) d j"
    by (elim exE conjE)
  have "\<forall>i<nat n. Outcome d ! i =
              X d ! i + TrueEffect d * real_of_int (Treatment d ! i)
                + noise_draw rng (unit_state rng seed i)"
  proof (intro allI impI)
    fix i assume "i < nat n"
    with u have "unit_done rng (unit_state rng seed i) d i" by simp
    then have "Outcome d ! i = X d ! i + real_of_int (Treatment d ! i) * TrueEffect d
       + noise_draw rng (unit_state rng seed i)"
      by (simp only: unit_done_def)
    then show "Outcome d ! i =
              X d ! i + TrueEffect d * real_of_int (Treatment d ! i)
                + noise_draw rng (unit_state rng seed i)"
      by (simp only: mult.commute)
  qed
  with g e show ?thesis by blast
qed

theorem GenerateCausalData_outcome_witness:
  "(0::int) \<le> 3 \<and>
   (\<exists>d g'. GenerateCausalData counting_source 3 7 (0, 0) = (Inr d, g') \<and> TrueEffect d = 5 \<and>
      (\<forall>i<nat 3. Outcome d ! i =
              X d ! i + TrueEffect d * real_of_int (Treatment d ! i)
                + noise_draw counting_source (unit_state counting_source 7 i)))"
  using GenerateCausalData_outcome [of 3 counting_source 7 "(0, 0)"] by simp

text \<open>
  C6: for fixed n and seed, two calls return the same data set (or the same panic),
  whatever state the default source is in when each call starts.
\<close>

theorem GenerateCausalData_deterministic:
  "fst (GenerateCausalData rng n seed g) = fst (GenerateCausalData rng n seed g')"
  by (simp add: GenerateCausalData_def)

text \<open>
  C3, as stated, says that a call modifies no state outside itself. The default source
  belongs to the process, and the call seeds it: after a call with seed 2 and n = 0 a
  source that was in the state of seed 1 is in another state.
\<close>

theorem GenerateCausalData_reseeds_default_source:
  "snd (GenerateCausalData counting_source 0 2 (Seed counting_source 1)) \<noteq>
     Seed counting_source 1"
  by (simp add: GenerateCausalData_def generate_loop.simps [of _ 0 0] counting_source_def)

text \<open>The same for any source: a call changes every state but the one it seeds.\<close>

lemma GenerateCausalData_changes_state:
  "Seed rng seed \<noteq> g \<Longrightarrow> snd (GenerateCausalData rng 0 seed g) \<noteq> g"
  by (simp add: GenerateCausalData_def generate_loop.simps [of _ 0 0])

text \<open>
  C3, amended: the call has one effect besides its result. It leaves the default source
  of the process in the state reached from the seed by the draws of n units, three
  each, whatever the state was before the call.
\<close>

theorem GenerateCausalData_final_state:
  "snd (GenerateCausalData rng n seed g) = unit_state rng seed (nat n)"
proof (cases "0 \<le> n")
  case True
  from GenerateCausalData_units [OF True, of rng seed g] show ?thesis by auto
next
  case False
  then show ?thesis
    by (simp add: GenerateCausalData_def unit_state_def)
qed

end
